theory Spec2Isabelle
  imports Complex_Main
begin

section \<open>Python values and exceptions\<close>

text \<open>
  The exceptions the modelled code can raise. \<open>DbError\<close> stands for an error raised by
  the database driver (connection.py logs it and re-raises it).
\<close>

datatype exn = ValueError | TypeError | KeyError | ZeroDivisionError | OverflowError | DbError

section \<open>utils/helpers.py: paginate\_query\<close>

text \<open>
  Python's slice \<open>xs[start:end]\<close> for integer bounds: a negative bound counts from the
  end, and both bounds are clipped into \<open>0..len(xs)\<close>.
\<close>

definition slice_bound :: "int \<Rightarrow> int \<Rightarrow> int" where
  "slice_bound n i = (if i < 0 then max (i + n) 0 else min i n)"

definition py_slice :: "'a list \<Rightarrow> int \<Rightarrow> int \<Rightarrow> 'a list" where
  "py_slice xs start stop =
     (let n = int (length xs); s = slice_bound n start; e = slice_bound n stop
      in if e \<le> s then [] else take (nat (e - s)) (drop (nat s) xs))"

text \<open>The dictionary that \<open>paginate_query\<close> returns, one field per key.\<close>

record 'a pagination =
  items :: "'a list"
  total :: int
  page :: int
  per_page :: int
  pages :: int
  has_prev :: bool
  has_next :: bool
  prev_num :: "int option"
  next_num :: "int option"

text \<open>
  \<open>paginate_query(query_result, page, per_page)\<close>. The arguments are called
  \<open>page_arg\<close> and \<open>per_page_arg\<close> here, the names \<open>page\<close> and \<open>per_page\<close> being the
  keys of the result. \<open>//\<close> is floor division, as \<open>div\<close> on \<open>int\<close>, and raises
  ZeroDivisionError for a zero divisor.
\<close>

definition paginate_query :: "'a list \<Rightarrow> int \<Rightarrow> int \<Rightarrow> exn + 'a pagination" where
  "paginate_query query_result page_arg per_page_arg =
     (if query_result = [] then
        Inr \<lparr>items = [], total = 0, page = 1, per_page = per_page_arg, pages = 0,
             has_prev = False, has_next = False, prev_num = None, next_num = None\<rparr>
      else
        let total_n = int (length query_result) in
        if per_page_arg = 0 then Inl ZeroDivisionError
        else
          let pages_n = (total_n + per_page_arg - 1) div per_page_arg;
              page_n = (if page_arg < 1 then 1
                        else if page_arg > pages_n \<and> pages_n > 0 then pages_n
                        else page_arg);
              start = (page_n - 1) * per_page_arg;
              stop = start + per_page_arg
          in Inr \<lparr>items = py_slice query_result start stop, total = total_n, page = page_n,
                  per_page = per_page_arg, pages = pages_n,
                  has_prev = (page_n > 1), has_next = (page_n < pages_n),
                  prev_num = (if page_n > 1 then Some (page_n - 1) else None),
                  next_num = (if page_n < pages_n then Some (page_n + 1) else None)\<rparr>)"

text \<open>The items of page \<open>k\<close> (nothing when the call raises).\<close>

definition page_items :: "'a list \<Rightarrow> int \<Rightarrow> int \<Rightarrow> 'a list" where
  "page_items xs k n = (case paginate_query xs k n of Inl _ \<Rightarrow> [] | Inr r \<Rightarrow> items r)"

section \<open>config.py: BusinessRules\<close>

text \<open>
  An entry of \<open>BusinessRules.CUSTOMER_TYPES\<close>. The discount rates are the float literals
  0.00, 5.00 and 15.00, which are exact.
\<close>

record customer_type_info =
  discount_rate :: real
  min_order_qty :: int
  description :: string

text \<open>The dictionaries, as association lists in the order of the source.\<close>

definition CUSTOMER_TYPES :: "(string \<times> customer_type_info) list" where
  "CUSTOMER_TYPES =
     [(''end'', \<lparr>discount_rate = 0, min_order_qty = 1, description = ''End consumer''\<rparr>),
      (''retail'', \<lparr>discount_rate = 5, min_order_qty = 10, description = ''Retail customer''\<rparr>),
      (''wholesale'',
         \<lparr>discount_rate = 15, min_order_qty = 50, description = ''Wholesale customer''\<rparr>)]"



section \<open>utils/helpers.py: get\_customer\_type\_info\<close>

text \<open>\<open>BusinessRules.CUSTOMER_TYPES.get(customer_type, {...})\<close>.\<close>

definition get_customer_type_info :: "string \<Rightarrow> customer_type_info" where
  "get_customer_type_info customer_type =
     (case map_of CUSTOMER_TYPES customer_type of
        Some info \<Rightarrow> info
      | None \<Rightarrow> \<lparr>discount_rate = 0, min_order_qty = 1, description = ''Unknown''\<rparr>)"

section \<open>utils/decorators.py: the in-memory stores\<close>

text \<open>
  The two attributes of \<open>flask.g\<close> that the helpers use; \<open>None\<close> is an attribute not yet
  set (\<open>hasattr\<close> is false). The clock \<open>time.time()\<close> is an argument \<open>now\<close> of each
  helper, a real number of seconds. A cached value is any Python value, \<open>None\<close> included,
  so it is an \<open>option\<close>.
\<close>

record 'v cache_entry =
  entry_value :: "'v option"
  expires :: real

record 'v app_globals =
  rate_limit_store :: "(string \<rightharpoonup> real list) option"
  cache_store :: "(string \<rightharpoonup> 'v cache_entry) option"

definition fresh_g :: "'v app_globals" where
  "fresh_g = \<lparr>rate_limit_store = None, cache_store = None\<rparr>"

text \<open>The timestamps recorded for a key, none when the store or the key is missing.\<close>

definition recorded :: "'v app_globals \<Rightarrow> string \<Rightarrow> real list" where
  "recorded g key =
     (case rate_limit_store g of None \<Rightarrow> []
      | Some store \<Rightarrow> (case store key of None \<Rightarrow> [] | Some ts \<Rightarrow> ts))"

text \<open>
  \<open>_is_rate_limited(key, max_requests, per_seconds)\<close>: the result and the updated globals.
\<close>

definition is_rate_limited ::
  "string \<Rightarrow> int \<Rightarrow> int \<Rightarrow> real \<Rightarrow> 'v app_globals \<Rightarrow> bool \<times> 'v app_globals" where
  "is_rate_limited key max_requests per_seconds now g =
     (let store = (case rate_limit_store g of None \<Rightarrow> Map.empty | Some s \<Rightarrow> s);
          window_start = now - real_of_int per_seconds;
          kept = (case store key of
                    Some ts \<Rightarrow> filter (\<lambda>timestamp. timestamp > window_start) ts
                  | None \<Rightarrow> [])
      in if int (length kept) \<ge> max_requests
         then (True, g\<lparr>rate_limit_store := Some (store(key \<mapsto> kept))\<rparr>)
         else (False, g\<lparr>rate_limit_store := Some (store(key \<mapsto> kept @ [now]))\<rparr>))"

text \<open>
  A sequence of calls on one store, each call with its key, its limits and its clock
  reading; the results are returned in order.
\<close>

record rl_call =
  call_key :: string
  call_max :: int
  call_per :: int
  call_now :: real

fun rate_limit_calls :: "'v app_globals \<Rightarrow> rl_call list \<Rightarrow> bool list \<times> 'v app_globals" where
  "rate_limit_calls g [] = ([], g)"
| "rate_limit_calls g (c # cs) =
     (case is_rate_limited (call_key c) (call_max c) (call_per c) (call_now c) g of
        (b, g1) \<Rightarrow> (case rate_limit_calls g1 cs of (bs, g2) \<Rightarrow> (b # bs, g2)))"

text \<open>The clock readings of the calls for \<open>key\<close> that returned False.\<close>

fun admitted :: "string \<Rightarrow> rl_call list \<Rightarrow> bool list \<Rightarrow> real list" where
  "admitted key (c # cs) (b # bs) =
     (if call_key c = key \<and> \<not> b then call_now c # admitted key cs bs else admitted key cs bs)"
| "admitted key _ _ = []"








section \<open>Requests, responses and the database, as the handlers see them\<close>

text \<open>
  The Python values that cross the database interface and sit in the session: None, an
  int, a Decimal (its numeric value), a str and a date (its proleptic Gregorian ordinal).
  A text is a list of bytes: only ASCII text is modelled.
\<close>

datatype pyval = PyNone | PyInt int | PyDec rat | PyStr string | PyDate int

text \<open>Truthiness, as \<open>if x\<close> and \<open>not x\<close> see a value.\<close>

fun truthy :: "pyval \<Rightarrow> bool" where
  "truthy PyNone = False"
| "truthy (PyInt n) = (n \<noteq> 0)"
| "truthy (PyDec d) = (d \<noteq> 0)"
| "truthy (PyStr s) = (s \<noteq> [])"
| "truthy (PyDate _) = True"

text \<open>
  A row of a result set, and an instance of a model class, are dictionaries from names to
  values. The session is a dictionary too; a form maps a name to the values submitted
  under it (a MultiDict).
\<close>

type_synonym row = "(string \<times> pyval) list"
type_synonym session = "string \<rightharpoonup> pyval"
type_synonym form = "string \<Rightarrow> string list"

text \<open>\<open>session.get(key)\<close>, \<open>form.get(key, default)\<close> and \<open>form.getlist(key)\<close>.\<close>

definition session_get :: "session \<Rightarrow> string \<Rightarrow> pyval" where
  "session_get s key = (case s key of None \<Rightarrow> PyNone | Some v \<Rightarrow> v)"

definition form_get :: "form \<Rightarrow> string \<Rightarrow> string option" where
  "form_get f key = (case f key of [] \<Rightarrow> None | v # _ \<Rightarrow> Some v)"


text \<open>
  \<open>d[key]\<close> on a value that is a dictionary or None: None is not subscriptable
  (TypeError), a missing key is a KeyError.
\<close>

definition subscript :: "row option \<Rightarrow> string \<Rightarrow> exn + pyval" where
  "subscript d key =
     (case d of None \<Rightarrow> Inl TypeError
      | Some r \<Rightarrow> (case map_of r key of None \<Rightarrow> Inl KeyError | Some v \<Rightarrow> Inr v))"

text \<open>\<open>not d\<close> for a value that is a dictionary or None.\<close>

definition falsy_row :: "row option \<Rightarrow> bool" where
  "falsy_row d = (case d of None \<Rightarrow> True | Some r \<Rightarrow> r = [])"

subsection \<open>Text to numbers\<close>

definition is_digit :: "char \<Rightarrow> bool" where
  "is_digit c = (48 \<le> (of_char c :: nat) \<and> (of_char c :: nat) \<le> 57)"

definition is_space :: "char \<Rightarrow> bool" where
  "is_space c = ((of_char c :: nat) \<in> {9, 10, 11, 12, 13, 28, 29, 30, 31, 32})"

text \<open>\<open>s.strip()\<close> and \<open>s.isdigit()\<close>, on ASCII text.\<close>

definition strip :: "string \<Rightarrow> string" where
  "strip s = rev (dropWhile is_space (rev (dropWhile is_space s)))"


text \<open>
  The digits of an integer literal: decimal digits, with single underscores between
  them. \<open>prev\<close> says that the character before was a digit.
\<close>

fun py_digits :: "string \<Rightarrow> bool \<Rightarrow> int \<Rightarrow> int option" where
  "py_digits [] prev acc = (if prev then Some acc else None)"
| "py_digits (c # cs) prev acc =
     (if is_digit c then py_digits cs True (acc * 10 + (int (of_char c) - 48))
      else if c = CHR ''_'' \<and> prev then py_digits cs False acc
      else None)"

text \<open>
  \<open>int(s)\<close> for a text: None stands for the ValueError. \<open>int\<close> skips the whitespace
  of C (codes 9 to 13 and 32) at both ends, a narrower set than \<open>str.strip\<close>; and it
  refuses a literal of more than 4300 digits (the default limit on the conversion of text
  to int, CPython 3.11), leading zeros counted, underscores not.
\<close>

definition is_int_space :: "char \<Rightarrow> bool" where
  "is_int_space c = ((of_char c :: nat) \<in> {9, 10, 11, 12, 13, 32})"

definition int_strip :: "string \<Rightarrow> string" where
  "int_strip s = rev (dropWhile is_int_space (rev (dropWhile is_int_space s)))"

definition max_str_digits :: nat where
  "max_str_digits = 4300"

definition py_int :: "string \<Rightarrow> int option" where
  "py_int s =
     (case int_strip s of
        [] \<Rightarrow> None
      | c # cs \<Rightarrow>
          if length (filter is_digit (c # cs)) > max_str_digits then None
          else if c = CHR ''-'' then map_option uminus (py_digits cs False 0)
          else if c = CHR ''+'' then py_digits cs False 0
          else py_digits (c # cs) False 0)"

text \<open>\<open>int(request.form.get(key, default))\<close>, the default being an int.\<close>

definition form_int :: "form \<Rightarrow> string \<Rightarrow> int \<Rightarrow> exn + int" where
  "form_int f key dflt =
     (case form_get f key of
        None \<Rightarrow> Inr dflt
      | Some s \<Rightarrow> (case py_int s of None \<Rightarrow> Inl ValueError | Some n \<Rightarrow> Inr n))"

subsection \<open>The world a handler acts on\<close>

text \<open>
  A flashed message is kept in its parts, the literal text and the values formatted into
  it by an f-string; with it goes its category.
\<close>

datatype part = Txt string | Val pyval

type_synonym message = "part list"

text \<open>What a handler returns: a redirect, to a URL or to an endpoint of \<open>url_for\<close>, or a
  rendered template.\<close>

datatype target = Url string | Endpoint string "(string \<times> pyval) list"

datatype response = Redirect target | Render string

text \<open>
  The database is a state \<open>'s\<close> behind three operations: a SELECT that fetches one row
  reads the state; a stored procedure returns its result sets and a new state; a stored
  function returns a number or NULL. Each may raise. \<open>checkout_template\<close> stands for the
  part of \<open>_render_checkout_page\<close> that only reads and computes (cart summary, discount,
  list of routes, template), which succeeds or raises.
\<close>

datatype sql_number = SqlNull | SqlInt int | SqlDecimal rat

record 's database =
  fetch_one :: "string \<Rightarrow> pyval list \<Rightarrow> 's \<Rightarrow> exn + row option"
  callproc :: "string \<Rightarrow> pyval list \<Rightarrow> 's \<Rightarrow> (exn + row list) \<times> 's"
  callfunc :: "string \<Rightarrow> pyval list \<Rightarrow> 's \<Rightarrow> exn + sql_number"
  checkout_template :: "row list \<Rightarrow> pyval \<Rightarrow> 's \<Rightarrow> exn + unit"

text \<open>
  The world: the database state, the stored procedures called so far with their
  arguments (a record kept for the statements below, the code keeps none), and the
  messages flashed so far.
\<close>

record 's world =
  db :: 's
  procs :: "(string \<times> pyval list) list"
  flashes :: "(message \<times> string) list"

text \<open>A step of a handler: it may raise, and it changes the world either way.\<close>

type_synonym ('a, 's) io = "'s world \<Rightarrow> (exn + 'a) \<times> 's world"

definition io_return :: "'a \<Rightarrow> ('a, 's) io" where
  "io_return x = (\<lambda>w. (Inr x, w))"

definition io_of :: "exn + 'a \<Rightarrow> ('a, 's) io" where
  "io_of r = (\<lambda>w. (r, w))"

definition io_bind :: "('a, 's) io \<Rightarrow> ('a \<Rightarrow> ('b, 's) io) \<Rightarrow> ('b, 's) io" where
  "io_bind m f = (\<lambda>w. case m w of (Inl e, w') \<Rightarrow> (Inl e, w') | (Inr x, w') \<Rightarrow> f x w')"

text \<open>\<open>try: m except Exception: h\<close>, for a handler whose every path returns.\<close>

definition try_except :: "('a, 's) io \<Rightarrow> ('s world \<Rightarrow> 'a \<times> 's world) \<Rightarrow> 's world \<Rightarrow> 'a \<times> 's world"
  where
  "try_except m h = (\<lambda>w. case m w of (Inl e, w') \<Rightarrow> h w' | (Inr x, w') \<Rightarrow> (x, w'))"

definition flash :: "message \<Rightarrow> string \<Rightarrow> 's world \<Rightarrow> 's world" where
  "flash msg category w = w\<lparr>flashes := flashes w @ [(msg, category)]\<rparr>"

definition flash_success :: "message \<Rightarrow> 's world \<Rightarrow> 's world" where
  "flash_success msg = flash msg ''success''"

definition flash_error :: "message \<Rightarrow> 's world \<Rightarrow> 's world" where
  "flash_error msg = flash msg ''error''"

definition flash_warning :: "message \<Rightarrow> 's world \<Rightarrow> 's world" where
  "flash_warning msg = flash msg ''warning''"

text \<open>\<open>redirect(request.referrer or url_for(endpoint))\<close>.\<close>

definition referrer_or :: "string option \<Rightarrow> string \<Rightarrow> response" where
  "referrer_or referrer endpoint =
     (case referrer of
        None \<Rightarrow> Redirect (Endpoint endpoint [])
      | Some u \<Rightarrow> if u = [] then Redirect (Endpoint endpoint []) else Redirect (Url u))"

text \<open>database/connection.py: \<open>execute_query(..., fetch_one=True)\<close>, \<open>call_procedure\<close>
  and \<open>call_function\<close>; each logs an error of the driver and raises it again.\<close>

definition execute_query_one :: "'s database \<Rightarrow> string \<Rightarrow> pyval list \<Rightarrow> (row option, 's) io" where
  "execute_query_one D query params = (\<lambda>w. (fetch_one D query params (db w), w))"

definition call_procedure :: "'s database \<Rightarrow> string \<Rightarrow> pyval list \<Rightarrow> (row list, 's) io" where
  "call_procedure D proc_name args =
     (\<lambda>w. case callproc D proc_name args (db w) of
             (r, s') \<Rightarrow> (r, w\<lparr>db := s', procs := procs w @ [(proc_name, args)]\<rparr>))"

definition call_function :: "'s database \<Rightarrow> string \<Rightarrow> pyval list \<Rightarrow> (sql_number, 's) io" where
  "call_function D func_name args = (\<lambda>w. (callfunc D func_name args (db w), w))"

text \<open>The calls of one stored procedure among those made.\<close>

definition calls_of :: "string \<Rightarrow> 's world \<Rightarrow> pyval list list" where
  "calls_of proc_name w = map snd (filter (\<lambda>c. fst c = proc_name) (procs w))"

text \<open>utils/helpers.py: \<open>get_current_user\<close> and \<open>is_customer\<close>.\<close>

definition get_current_user :: "session \<Rightarrow> row option" where
  "get_current_user s =
     (if s ''user_name'' = None then None
      else Some [(''user_name'', session_get s ''user_name''),
                 (''user_role'', session_get s ''user_role''),
                 (''full_name'', session_get s ''full_name''),
                 (''customer_id'', session_get s ''customer_id''),
                 (''store_name'', session_get s ''store_name''),
                 (''manager_id'', session_get s ''manager_id'')])"

definition is_customer :: "session \<Rightarrow> bool" where
  "is_customer s = (session_get s ''user_role'' = PyStr ''customer'')"

section \<open>utils/decorators.py: role\_required\<close>

text \<open>
  \<open>role_required(*allowed_roles)(f)\<close>, applied to a request with the given session. The
  wrapped function \<open>f\<close> acts on the world and returns a response.
\<close>

definition role_required ::
  "pyval list \<Rightarrow> ('s world \<Rightarrow> response \<times> 's world) \<Rightarrow> session \<Rightarrow> 's world \<Rightarrow> response \<times> 's world"
  where
  "role_required allowed_roles f s w =
     (if s ''user_name'' = None then
        (Redirect (Endpoint ''auth.login'' []),
         flash [Txt ''Please log in to access this page.''] ''warning'' w)
      else
        let user_role = session_get s ''user_role'' in
        if user_role \<notin> set allowed_roles then
          (Redirect (Endpoint ''index'' []),
           flash [Txt ''You do not have permission to access this page.''] ''error'' w)
        else f w)"

section \<open>Comparison of values\<close>

text \<open>Text is ordered by its code points, here bytes.\<close>

fun str_less :: "string \<Rightarrow> string \<Rightarrow> bool" where
  "str_less [] [] = False"
| "str_less [] (_ # _) = True"
| "str_less (_ # _) [] = False"
| "str_less (a # as) (b # bs) =
     ((of_char a :: nat) < of_char b \<or> (a = b \<and> str_less as bs))"

text \<open>\<open>a < b\<close>: numbers with numbers, text with text, dates with dates; a TypeError
  otherwise.\<close>

fun py_less :: "pyval \<Rightarrow> pyval \<Rightarrow> exn + bool" where
  "py_less (PyInt a) (PyInt b) = Inr (a < b)"
| "py_less (PyInt a) (PyDec b) = Inr (of_int a < b)"
| "py_less (PyDec a) (PyInt b) = Inr (a < of_int b)"
| "py_less (PyDec a) (PyDec b) = Inr (a < b)"
| "py_less (PyStr a) (PyStr b) = Inr (str_less a b)"
| "py_less (PyDate a) (PyDate b) = Inr (a < b)"
| "py_less _ _ = Inl TypeError"

section \<open>Steps that answer and steps that flash\<close>

text \<open>A handler's \<open>flash(...); return response\<close>, and a flash on its own.\<close>

definition respond :: "('s world \<Rightarrow> 's world) \<Rightarrow> response \<Rightarrow> (response, 's) io" where
  "respond effect r = (\<lambda>w. (Inr r, effect w))"


section \<open>database/models.py\<close>

text \<open>
  \<open>BaseModel.from_dict\<close> is \<open>cls(**data)\<close>: a TypeError for a key that is no field of
  the dataclass; otherwise an instance, here the given values followed by the defaults
  (a lookup finds the given value first).
\<close>

definition from_dict :: "row \<Rightarrow> row \<Rightarrow> exn + row" where
  "from_dict field_defaults data =
     (if list_all (\<lambda>kv. fst kv \<in> set (map fst field_defaults)) data
      then Inr (data @ field_defaults)
      else Inl TypeError)"

definition attr :: "row \<Rightarrow> string \<Rightarrow> pyval" where
  "attr obj name = (case map_of obj name of None \<Rightarrow> PyNone | Some v \<Rightarrow> v)"

fun collect :: "(exn + 'a) list \<Rightarrow> exn + 'a list" where
  "collect [] = Inr []"
| "collect (Inl e # _) = Inl e"
| "collect (Inr x # rs) = (case collect rs of Inl e \<Rightarrow> Inl e | Inr xs \<Rightarrow> Inr (x # xs))"

text \<open>The fields of the dataclasses CartItem and Order, with their defaults.\<close>

definition CartItem_fields :: row where
  "CartItem_fields =
     [(''cart_id'', PyNone), (''customer_id'', PyNone), (''item_id'', PyNone),
      (''quantity'', PyInt 1), (''added_date'', PyNone), (''updated_date'', PyNone),
      (''item_name'', PyStr ''''), (''price'', PyDec 0), (''weight'', PyDec 0),
      (''volume'', PyDec 0)]"

definition Order_fields :: row where
  "Order_fields =
     [(''order_id'', PyNone), (''customer_id'', PyNone), (''route_id'', PyNone),
      (''order_date'', PyNone), (''delivery_date'', PyNone),
      (''requested_delivery_time'', PyNone), (''status'', PyStr ''pending''),
      (''total_items'', PyInt 0), (''total_weight'', PyDec 0), (''total_volume'', PyDec 0),
      (''subtotal'', PyDec 0), (''discount_amount'', PyDec 0), (''tax_amount'', PyDec 0),
      (''shipping_cost'', PyDec 0), (''total_amount'', PyDec 0),
      (''payment_status'', PyStr ''pending''), (''special_instructions'', PyStr ''''),
      (''priority'', PyStr ''standard''), (''created_date'', PyNone),
      (''updated_date'', PyNone)]"


definition CartItem_get_cart_contents :: "'s database \<Rightarrow> pyval \<Rightarrow> (row list, 's) io" where
  "CartItem_get_cart_contents D customer_id =
     (\<lambda>w. case call_procedure D ''sp_get_cart_summary'' [customer_id] w of
             (Inl e, w') \<Rightarrow> (Inr [], w')
           | (Inr cart_data, w') \<Rightarrow>
               (case collect (map (from_dict CartItem_fields) cart_data) of
                  Inl e \<Rightarrow> (Inr [], w')
                | Inr cart_items \<Rightarrow> (Inr cart_items, w')))"

text \<open>\<open>Order.get_by_id\<close>, \<open>Order.create_from_cart\<close> and \<open>Order.update_status\<close>.\<close>

definition Order_get_by_id :: "'s database \<Rightarrow> pyval \<Rightarrow> (row option, 's) io" where
  "Order_get_by_id D order_id =
     (\<lambda>w. case execute_query_one D ''SELECT * FROM order_table WHERE order_id = %s'' [order_id] w of
             (Inl e, w') \<Rightarrow> (Inr None, w')
           | (Inr order_data, w') \<Rightarrow>
               (case order_data of
                  None \<Rightarrow> (Inr None, w')
                | Some data \<Rightarrow>
                    if data = [] then (Inr None, w')
                    else (case from_dict Order_fields data of
                            Inl e \<Rightarrow> (Inr None, w')
                          | Inr order \<Rightarrow> (Inr (Some order), w'))))"

definition Order_create_from_cart ::
  "'s database \<Rightarrow> pyval \<Rightarrow> int \<Rightarrow> int \<Rightarrow> string \<Rightarrow> (row option, 's) io" where
  "Order_create_from_cart D customer_id route_id delivery_date special_instructions =
     (\<lambda>w. case call_procedure D ''sp_create_order_from_cart''
                 [customer_id, PyInt route_id, PyDate delivery_date, PyStr special_instructions] w of
             (Inl e, w') \<Rightarrow> (Inr None, w')
           | (Inr result, w') \<Rightarrow>
               (case result of
                  [] \<Rightarrow> (Inr None, w')
                | first # _ \<Rightarrow>
                    (case map_of first ''order_id'' of
                       None \<Rightarrow> (Inr None, w')
                     | Some order_id \<Rightarrow>
                         if truthy order_id then Order_get_by_id D order_id w'
                         else (Inr None, w'))))"

text \<open>\<open>order.update_status(new_status, user_name)\<close>: the result and the order afterwards.\<close>

definition Order_update_status ::
  "'s database \<Rightarrow> row \<Rightarrow> string \<Rightarrow> pyval \<Rightarrow> 's world \<Rightarrow> (bool \<times> row) \<times> 's world" where
  "Order_update_status D self new_status user_name =
     (\<lambda>w. case call_procedure D ''sp_update_order_status''
                 [attr self ''order_id'', PyStr new_status, user_name] w of
             (Inl e, w') \<Rightarrow> ((False, self), w')
           | (Inr _, w') \<Rightarrow> ((True, (''status'', PyStr new_status) # self), w'))"

text \<open>
  \<open>calculate_shipping_cost(route_id, weight, volume)\<close>. The result is the value of a
  Decimal; \<open>Decimal(str(result))\<close> keeps the value of an int and of a Decimal.
\<close>

fun number_truthy :: "sql_number \<Rightarrow> bool" where
  "number_truthy SqlNull = False"
| "number_truthy (SqlInt n) = (n \<noteq> 0)"
| "number_truthy (SqlDecimal d) = (d \<noteq> 0)"

fun Decimal_of :: "sql_number \<Rightarrow> rat" where
  "Decimal_of SqlNull = 0"
| "Decimal_of (SqlInt n) = of_int n"
| "Decimal_of (SqlDecimal d) = d"

definition calculate_shipping_cost :: "'s database \<Rightarrow> pyval \<Rightarrow> pyval \<Rightarrow> pyval \<Rightarrow> 's world \<Rightarrow> rat"
  where
  "calculate_shipping_cost D route_id weight volume w =
     (case call_function D ''fn_calculate_shipping_cost'' [route_id, weight, volume] w of
        (Inl e, _) \<Rightarrow> 10
      | (Inr result, _) \<Rightarrow> if number_truthy result then Decimal_of result else 10)"

section \<open>routes/customer.py: add\_to\_cart\<close>



section \<open>routes/orders.py: cancel\_order and bulk\_update\_orders\<close>

text \<open>
  The order that \<open>cancel_order\<close> fetches: a customer's own order with that id, or, for
  any other role, the order with that id.
\<close>

definition permitted_order :: "'s database \<Rightarrow> session \<Rightarrow> int \<Rightarrow> (row option, 's) io" where
  "permitted_order D s order_id =
     (if is_customer s then
        io_bind (io_of (subscript (get_current_user s) ''customer_id'')) (\<lambda>customer_id.
        execute_query_one D
          ''SELECT * FROM order_table WHERE order_id = %s AND customer_id = %s''
          [PyInt order_id, customer_id])
      else
        execute_query_one D ''SELECT * FROM order_table WHERE order_id = %s''
          [PyInt order_id])"

definition cancel_order_body ::
  "'s database \<Rightarrow> session \<Rightarrow> string option \<Rightarrow> int \<Rightarrow> (response, 's) io" where
  "cancel_order_body D s referrer order_id =
     (let user = get_current_user s in
      io_bind (permitted_order D s order_id) (\<lambda>order.
      if falsy_row order then
        respond (flash_error [Txt ''Order not found'']) (referrer_or referrer ''customer.orders'')
      else
      io_bind (io_of (subscript order ''status'')) (\<lambda>status.
      if status \<in> set [PyStr ''delivered'', PyStr ''cancelled'', PyStr ''returned''] then
        respond (flash_error [Txt ''Order cannot be cancelled''])
          (referrer_or referrer ''customer.orders'')
      else
      io_bind (io_of (subscript user ''user_name'')) (\<lambda>user_name.
      io_bind (call_procedure D ''sp_update_order_status''
                 [PyInt order_id, PyStr ''cancelled'', user_name]) (\<lambda>_.
      respond (flash_success [Txt ''Order #'', Val (PyInt order_id), Txt '' has been cancelled''])
        (referrer_or referrer ''customer.orders''))))))"

definition cancel_order ::
  "'s database \<Rightarrow> session \<Rightarrow> string option \<Rightarrow> int \<Rightarrow> 's world \<Rightarrow> response \<times> 's world" where
  "cancel_order D s referrer order_id =
     try_except (cancel_order_body D s referrer order_id)
       (\<lambda>w. (referrer_or referrer ''customer.orders'',
             flash_error [Txt ''Error cancelling order''] w))"





section \<open>routes/manager.py: update\_order\_status\<close>




section \<open>Dates\<close>

text \<open>
  The proleptic Gregorian ordinal of a date, as \<open>date.toordinal\<close> computes it; dates
  run from 0001-01-01, ordinal 1, to 9999-12-31, ordinal 3652059.
\<close>

definition is_leap :: "int \<Rightarrow> bool" where
  "is_leap y = (y mod 4 = 0 \<and> (y mod 100 \<noteq> 0 \<or> y mod 400 = 0))"

definition days_in_month :: "int \<Rightarrow> int \<Rightarrow> int" where
  "days_in_month y m =
     (if m = 2 then (if is_leap y then 29 else 28)
      else if m \<in> {4, 6, 9, 11} then 30 else 31)"

definition days_before_year :: "int \<Rightarrow> int" where
  "days_before_year y = (y - 1) * 365 + (y - 1) div 4 - (y - 1) div 100 + (y - 1) div 400"

definition days_before_month :: "int \<Rightarrow> int \<Rightarrow> int" where
  "days_before_month y m = sum_list (map (days_in_month y) [1..m - 1])"

definition ymd2ord :: "int \<Rightarrow> int \<Rightarrow> int \<Rightarrow> int" where
  "ymd2ord y m d = days_before_year y + days_before_month y m + d"

definition max_ordinal :: int where
  "max_ordinal = 3652059"

text \<open>The number written by a text of digits.\<close>

definition digits_value :: "string \<Rightarrow> int" where
  "digits_value s = foldl (\<lambda>acc c. acc * 10 + (int (of_char c) - 48)) 0 s"

text \<open>
  The month and the day of \<open>%m\<close> and \<open>%d\<close>: one digit, or two with a leading zero, or
  10 to 12 for a month and 10 to 31 for a day; \<open>%d\<close> also takes a space before one digit.
\<close>

definition month_token :: "string \<Rightarrow> int option" where
  "month_token s =
     (if list_all is_digit s \<and> (length s = 1 \<or> length s = 2)
         \<and> 1 \<le> digits_value s \<and> digits_value s \<le> 12
      then Some (digits_value s) else None)"

definition day_token :: "string \<Rightarrow> int option" where
  "day_token s =
     (if list_all is_digit s \<and> (length s = 1 \<or> length s = 2)
         \<and> 1 \<le> digits_value s \<and> digits_value s \<le> 31
      then Some (digits_value s)
      else case s of
        [sp, c] \<Rightarrow> if sp = CHR '' '' \<and> is_digit c \<and> c \<noteq> CHR ''0''
                    then Some (digits_value [c]) else None
      | _ \<Rightarrow> None)"

text \<open>
  \<open>datetime.strptime(s, '%Y-%m-%d').date()\<close>, as an ordinal: four digits, a hyphen, a
  month, a hyphen, a day, and nothing else; the date must exist. None is the ValueError.
\<close>

definition strptime_ymd :: "string \<Rightarrow> int option" where
  "strptime_ymd s =
     (let ytext = take 4 s; rest = drop 4 s in
      if length ytext = 4 \<and> list_all is_digit ytext \<and> rest \<noteq> [] \<and> hd rest = CHR ''-'' then
        let mtext = takeWhile (\<lambda>c. c \<noteq> CHR ''-'') (tl rest);
            after = dropWhile (\<lambda>c. c \<noteq> CHR ''-'') (tl rest)
        in if after = [] then None
           else case (month_token mtext, day_token (tl after)) of
                  (Some m, Some d) \<Rightarrow>
                    let y = digits_value ytext in
                    if 1 \<le> y \<and> d \<le> days_in_month y m then Some (ymd2ord y m d) else None
                | _ \<Rightarrow> None
      else None)"

text \<open>
  The argument of \<open>is_future_date\<close>: a text, a date, or a datetime (its date and its
  time of day in seconds).
\<close>

datatype date_arg = DateStr string | DateObj int | DateTimeObj int rat

text \<open>
  \<open>is_future_date(date_obj, days_ahead)\<close>, with \<open>date.today()\<close> as the argument
  \<open>today\<close>. A text that does not parse gives False; a day out of the range of dates is an
  OverflowError, which the function does not catch.
\<close>

definition is_future_date :: "int \<Rightarrow> date_arg \<Rightarrow> int \<Rightarrow> exn + bool" where
  "is_future_date today date_obj days_ahead =
     (case (case date_obj of
              DateStr s \<Rightarrow> strptime_ymd s
            | DateObj d \<Rightarrow> Some d
            | DateTimeObj d _ \<Rightarrow> Some d) of
        None \<Rightarrow> Inr False
      | Some d \<Rightarrow>
          if \<bar>days_ahead\<bar> > 999999999 \<or> today + days_ahead < 1 \<or> today + days_ahead > max_ordinal
          then Inl OverflowError
          else Inr (d \<ge> today + days_ahead))"

section \<open>utils/helpers.py: sanitize\_input\<close>

definition sanitize_input :: "string \<Rightarrow> string" where
  "sanitize_input text =
     (if text = [] then []
      else strip (filter (\<lambda>c. c \<notin> set [CHR ''<'', CHR ''>'', CHR 0x22, CHR 0x27, CHR '';'']) text))"

section \<open>routes/customer.py: checkout\<close>

text \<open>
  \<open>_render_checkout_page\<close>: it reads the cart through \<open>sp_get_cart_summary\<close>, and then
  only reads and computes (\<open>checkout_template\<close>).
\<close>

definition render_checkout_page :: "'s database \<Rightarrow> session \<Rightarrow> 's world \<Rightarrow> response \<times> 's world" where
  "render_checkout_page D s =
     try_except
       (io_bind (io_of (subscript (get_current_user s) ''customer_id'')) (\<lambda>customer_id.
        io_bind (CartItem_get_cart_contents D customer_id) (\<lambda>cart_items.
        if cart_items = [] then
          respond (flash_warning [Txt ''Your cart is empty'']) (Redirect (Endpoint ''customer.cart'' []))
        else
        io_bind (\<lambda>w. (checkout_template D cart_items customer_id (db w), w)) (\<lambda>_.
        io_return (Render ''customer/checkout.html'')))))
       (\<lambda>w. (Redirect (Endpoint ''customer.cart'' []),
             flash_error [Txt ''Error loading checkout page''] w))"

text \<open>\<open>flash_error(msg); return _render_checkout_page()\<close>.\<close>

definition error_page :: "'s database \<Rightarrow> session \<Rightarrow> message \<Rightarrow> (response, 's) io" where
  "error_page D s msg =
     (\<lambda>w. case render_checkout_page D s (flash_error msg w) of (r, w') \<Rightarrow> (Inr r, w'))"

definition checkout_body ::
  "'s database \<Rightarrow> int \<Rightarrow> session \<Rightarrow> form \<Rightarrow> (response, 's) io" where
  "checkout_body D today s f =
     io_bind (io_of (subscript (get_current_user s) ''customer_id'')) (\<lambda>customer_id.
     io_bind (io_of (form_int f ''route_id'' 0)) (\<lambda>route_id.
     let delivery_date = (case form_get f ''delivery_date'' of None \<Rightarrow> [] | Some v \<Rightarrow> v);
         special_instructions =
           sanitize_input (case form_get f ''special_instructions'' of None \<Rightarrow> [] | Some v \<Rightarrow> v)
     in
     if route_id \<le> 0 then error_page D s [Txt ''Please select a delivery route'']
     else
     io_bind (if delivery_date = [] then io_return True
              else io_bind (io_of (is_future_date today (DateStr delivery_date) 7)) (\<lambda>future.
                   io_return (\<not> future))) (\<lambda>too_early.
     if too_early then error_page D s [Txt ''Delivery date must be at least 7 days from today'']
     else
     io_bind (CartItem_get_cart_contents D customer_id) (\<lambda>cart_items.
     if cart_items = [] then
       respond (flash_error [Txt ''Your cart is empty'']) (Redirect (Endpoint ''customer.cart'' []))
     else
     io_bind (io_of (case strptime_ymd delivery_date of
                       None \<Rightarrow> Inl ValueError | Some d \<Rightarrow> Inr d)) (\<lambda>delivery_day.
     io_bind (Order_create_from_cart D customer_id route_id delivery_day special_instructions)
       (\<lambda>order.
     case order of
       Some created \<Rightarrow>
         respond (flash_success [Txt ''Order #'', Val (attr created ''order_id''),
                                 Txt '' placed successfully!''])
           (Redirect (Endpoint ''customer.order_detail''
                        [(''order_id'', attr created ''order_id'')]))
     | None \<Rightarrow> error_page D s [Txt ''Failed to create order. Please try again.'']))))))"

definition checkout ::
  "'s database \<Rightarrow> int \<Rightarrow> session \<Rightarrow> string \<Rightarrow> form \<Rightarrow> 's world \<Rightarrow> response \<times> 's world" where
  "checkout D today s method f =
     (if method = ''GET'' then render_checkout_page D s
      else try_except (checkout_body D today s f)
             (\<lambda>w. render_checkout_page D s (flash_error [Txt ''Error processing order''] w)))"

section \<open>Concrete inputs\<close>

text \<open>Four calls on one store: three of one user, one of another.\<close>

definition demo_calls :: "rl_call list" where
  "demo_calls =
     [\<lparr>call_key = ''u'', call_max = 1, call_per = 60, call_now = 0\<rparr>,
      \<lparr>call_key = ''u'', call_max = 1, call_per = 60, call_now = 30\<rparr>,
      \<lparr>call_key = ''v'', call_max = 5, call_per = 10, call_now = 40\<rparr>,
      \<lparr>call_key = ''u'', call_max = 1, call_per = 60, call_now = 60\<rparr>]"

text \<open>
  A clock that steps back, with two calls allowed per 10 seconds; and a negative limit.
\<close>

definition backward_calls :: "rl_call list" where
  "backward_calls =
     [\<lparr>call_key = ''u'', call_max = 2, call_per = 10, call_now = 0\<rparr>,
      \<lparr>call_key = ''u'', call_max = 2, call_per = 10, call_now = 1\<rparr>,
      \<lparr>call_key = ''u'', call_max = 2, call_per = 10, call_now = 15\<rparr>,
      \<lparr>call_key = ''u'', call_max = 2, call_per = 10, call_now = 2\<rparr>]"

definition negative_calls :: "rl_call list" where
  "negative_calls =
     [\<lparr>call_key = ''u'', call_max = - 1, call_per = 60, call_now = 0\<rparr>,
      \<lparr>call_key = ''u'', call_max = - 1, call_per = 60, call_now = 100\<rparr>]"

text \<open>
  A database whose state counts the procedure calls made. It knows item 3 (12 in stock),
  the orders 7 (out for delivery) and 8 (delivered) of customer 5, a cart of one line, and
  creates order 42.
\<close>

definition demo_fetch_one :: "string \<Rightarrow> pyval list \<Rightarrow> nat \<Rightarrow> exn + row option" where
  "demo_fetch_one query params n =
     (if query = ''SELECT item_id, item_name FROM items WHERE item_id = %s AND is_active = TRUE''
      then (if params = [PyInt 3]
            then Inr (Some [(''item_id'', PyInt 3), (''item_name'', PyStr ''Widget'')])
            else Inr None)
      else if query = ''SELECT SUM(quantity_available) as total FROM inventory WHERE item_id = %s''
      then Inr (Some [(''total'', PyDec 12)])
      else if query = ''SELECT * FROM order_table WHERE order_id = %s AND customer_id = %s''
      then (if params = [PyInt 7, PyInt 5]
            then Inr (Some [(''order_id'', PyInt 7), (''customer_id'', PyInt 5),
                            (''status'', PyStr ''out_for_delivery'')])
            else if params = [PyInt 8, PyInt 5]
            then Inr (Some [(''order_id'', PyInt 8), (''customer_id'', PyInt 5),
                            (''status'', PyStr ''delivered'')])
            else Inr None)
      else if query = ''SELECT * FROM order_table WHERE order_id = %s''
      then (if params = [PyInt 42]
            then Inr (Some [(''order_id'', PyInt 42), (''status'', PyStr ''pending'')])
            else if params = [PyInt 8]
            then Inr (Some [(''order_id'', PyInt 8), (''customer_id'', PyInt 5),
                            (''status'', PyStr ''delivered'')])
            else Inr None)
      else Inl DbError)"

definition demo_callproc :: "string \<Rightarrow> pyval list \<Rightarrow> nat \<Rightarrow> (exn + row list) \<times> nat" where
  "demo_callproc proc_name args n =
     (if proc_name = ''sp_get_cart_summary''
      then (Inr [[(''cart_id'', PyInt 1), (''item_id'', PyInt 3), (''quantity'', PyInt 2)]], Suc n)
      else if proc_name = ''sp_create_order_from_cart''
      then (Inr [[(''order_id'', PyInt 42)]], Suc n)
      else (Inr [], Suc n))"

definition demo_db :: "nat database" where
  "demo_db = \<lparr>fetch_one = demo_fetch_one, callproc = demo_callproc,
               callfunc = (\<lambda>func_name args n. Inr (SqlDecimal 0)),
               checkout_template = (\<lambda>cart_items customer_id n. Inr ())\<rparr>"

definition demo_world :: "nat world" where
  "demo_world = \<lparr>db = 0, procs = [], flashes = []\<rparr>"

definition customer_session :: session where
  "customer_session =
     [''user_name'' \<mapsto> PyStr ''alice'', ''user_role'' \<mapsto> PyStr ''customer'',
      ''customer_id'' \<mapsto> PyInt 5]"

definition manager_session :: session where
  "manager_session =
     [''user_name'' \<mapsto> PyStr ''bob'', ''user_role'' \<mapsto> PyStr ''store_manager'']"




text \<open>A checkout form whose route is the text of a file separator and a digit.\<close>

definition bad_route_form :: form where
  "bad_route_form = (\<lambda>key. if key = ''route_id'' then [[CHR 0x1C, CHR ''2'']]
                           else if key = ''delivery_date'' then [''2026-11-11''] else [])"


section \<open>Pagination: the result of paginate\_query\<close>

lemma py_slice_take_drop:
  assumes "0 \<le> s" "0 < n"
  shows "py_slice xs s (s + n) = take (nat n) (drop (nat s) xs)"
proof (cases "s < int (length xs)")
  case True
  show ?thesis
  proof (cases "s + n \<le> int (length xs)")
    case True
    with assms \<open>s < int (length xs)\<close> show ?thesis
      by (simp add: py_slice_def slice_bound_def Let_def nat_add_distrib)
  next
    case False
    with assms \<open>s < int (length xs)\<close> show ?thesis
      by (simp add: py_slice_def slice_bound_def Let_def min_def nat_diff_distrib)
  qed
next
  case False
  with assms show ?thesis
    by (simp add: py_slice_def slice_bound_def Let_def min_def)
qed

lemma ceiling_div_int:
  fixes t n :: int
  assumes "0 < n"
  shows "(t + n - 1) div n = \<lceil>real_of_int t / real_of_int n\<rceil>"
proof -
  define q where "q = (t + n - 1) div n"
  have d: "t + n - 1 = n * q + (t + n - 1) mod n"
    by (simp add: q_def)
  have m: "0 \<le> (t + n - 1) mod n" "(t + n - 1) mod n < n"
    using assms by simp_all
  have a: "(q - 1) * n < t"
    using d m by (simp add: algebra_simps)
  have b: "t \<le> q * n"
    using d m by (simp add: algebra_simps)
  have "real_of_int ((q - 1) * n) < real_of_int t"
    using a by (simp only: of_int_less_iff)
  then have a': "real_of_int (q - 1) < real_of_int t / real_of_int n"
    using assms by (simp add: pos_less_divide_eq)
  have "real_of_int t \<le> real_of_int (q * n)"
    using b by (simp only: of_int_le_iff)
  then have b': "real_of_int t / real_of_int n \<le> real_of_int q"
    using assms by (simp add: pos_divide_le_eq)
  have "\<lceil>real_of_int t / real_of_int n\<rceil> = q"
    using a' b' by (simp add: ceiling_eq_iff)
  then show ?thesis by (simp add: q_def)
qed

lemma concat_chunks:
  "concat (map (\<lambda>k. take n (drop (k * n) xs)) [0..<m]) = take (m * n) xs"
proof (induction m)
  case 0
  show ?case by simp
next
  case (Suc m)
  have "take (m * n) xs @ take n (drop (m * n) xs) = take (m * n + n) xs"
    by (simp add: take_add)
  with Suc show ?case by (simp add: add.commute)
qed

lemma upto_as_upt: "[1..int m] = map (\<lambda>k. int k + 1) [0..<m]"
proof (induction m)
  case 0
  show ?case by simp
next
  case (Suc m)
  have "[1..int (Suc m)] = [1..int m] @ [int m + 1]"
    by (simp add: upto_rec2 add.commute)
  with Suc show ?case by simp
qed

text \<open>number of pages, for a positive page size\<close>
lemma pages_bounds:
  fixes n :: int
  assumes "0 < n"
  shows "int (length xs) \<le> ((int (length xs) + n - 1) div n) * n"
    and "xs \<noteq> [] \<Longrightarrow> 1 \<le> (int (length xs) + n - 1) div n"
proof -
  define t where "t = int (length xs)"
  define q where "q = (t + n - 1) div n"
  have d: "t + n - 1 = n * q + (t + n - 1) mod n"
    by (simp add: q_def)
  have m: "(t + n - 1) mod n < n"
    using assms by simp
  have "t \<le> q * n"
    using d m by (simp add: algebra_simps)
  then show "int (length xs) \<le> ((int (length xs) + n - 1) div n) * n"
    by (simp add: t_def q_def)
  show "1 \<le> (int (length xs) + n - 1) div n" if "xs \<noteq> []"
  proof -
    have "0 < t" using that by (simp add: t_def)
    then have "n \<le> t + n - 1" by simp
    then have "n div n \<le> (t + n - 1) div n"
      using assms by (intro zdiv_mono1) simp_all
    then show ?thesis using assms by (simp add: t_def)
  qed
qed

lemma paginate_query_page:
  assumes "0 < n" "xs \<noteq> []"
    and q: "q = (int (length xs) + n - 1) div n"
    and c: "c = max 1 (min p q)"
  shows "paginate_query xs p n =
    Inr \<lparr>items = take (nat n) (drop (nat ((c - 1) * n)) xs),
         total = int (length xs), page = c, per_page = n, pages = q,
         has_prev = (c > 1), has_next = (c < q),
         prev_num = (if c > 1 then Some (c - 1) else None),
         next_num = (if c < q then Some (c + 1) else None)\<rparr>"
proof -
  have q1: "1 \<le> q" using pages_bounds(2)[OF assms(1,2)] by (simp add: q)
  have c': "(if p < 1 then 1 else if p > q \<and> q > 0 then q else p) = c"
    using q1 by (auto simp: c)
  have c1: "0 \<le> (c - 1) * n" using assms(1) q1 by (simp add: c)
  have s: "py_slice xs ((c - 1) * n) ((c - 1) * n + n) = take (nat n) (drop (nat ((c - 1) * n)) xs)"
    using c1 assms(1) by (rule py_slice_take_drop)
  have "paginate_query xs p n =
     Inr \<lparr>items = py_slice xs ((c - 1) * n) ((c - 1) * n + n), total = int (length xs), page = c,
                  per_page = n, pages = q,
                  has_prev = (c > 1), has_next = (c < q),
                  prev_num = (if c > 1 then Some (c - 1) else None),
                  next_num = (if c < q then Some (c + 1) else None)\<rparr>"
    using assms(1,2) unfolding paginate_query_def Let_def q[symmetric] c' by simp
  then show ?thesis
    by (simp only: s)
qed

lemma paginate_query_empty:
  "paginate_query [] p n =
     Inr \<lparr>items = [], total = 0, page = 1, per_page = n, pages = 0,
          has_prev = False, has_next = False, prev_num = None, next_num = None\<rparr>"
  by (simp add: paginate_query_def)

lemma page_items_chunk:
  assumes "0 < n" "xs \<noteq> []" "1 \<le> k" "k \<le> (int (length xs) + n - 1) div n"
  shows "page_items xs k n = take (nat n) (drop (nat ((k - 1) * n)) xs)"
proof -
  have "k = max 1 (min k ((int (length xs) + n - 1) div n))"
    using assms(3,4) by simp
  then show ?thesis
    by (simp add: page_items_def paginate_query_page[OF assms(1,2) refl])
qed

lemma concat_pages:
  assumes "0 < n"
  shows "concat (map (\<lambda>k. page_items xs k n) [1..(int (length xs) + n - 1) div n]) = xs"
proof (cases "xs = []")
  case True
  then show ?thesis by (simp add: page_items_def paginate_query_empty)
next
  case False
  define q where "q = (int (length xs) + n - 1) div n"
  have q1: "1 \<le> q" using pages_bounds(2)[OF assms False] by (simp add: q_def)
  have len: "int (length xs) \<le> q * n" using pages_bounds(1)[OF assms] by (simp add: q_def)
  have "[1..q] = map (\<lambda>j. int j + 1) [0..<nat q]"
    using upto_as_upt[of "nat q"] q1 by simp
  then have "concat (map (\<lambda>k. page_items xs k n) [1..q])
           = concat (map (\<lambda>j. page_items xs (int j + 1) n) [0..<nat q])"
    by (simp add: comp_def)
  also have "map (\<lambda>j. page_items xs (int j + 1) n) [0..<nat q]
           = map (\<lambda>j. take (nat n) (drop (j * nat n) xs)) [0..<nat q]"
  proof (rule map_cong[OF refl])
    fix j assume "j \<in> set [0..<nat q]"
    then have j: "int j + 1 \<le> q" by auto
    have "page_items xs (int j + 1) n = take (nat n) (drop (nat ((int j + 1 - 1) * n)) xs)"
      using assms False _ j[unfolded q_def] by (rule page_items_chunk) simp
    moreover have "nat (int j * n) = j * nat n"
      using assms by (simp add: nat_mult_distrib)
    ultimately show "page_items xs (int j + 1) n = take (nat n) (drop (j * nat n) xs)"
      by simp
  qed
  also have "concat \<dots> = take (nat q * nat n) xs"
    by (rule concat_chunks)
  also have "\<dots> = xs"
  proof -
    have "nat q * nat n = nat (q * n)"
      using q1 assms by (simp add: nat_mult_distrib)
    then have "length xs \<le> nat q * nat n" using len by simp
    then show ?thesis by simp
  qed
  finally show ?thesis by (simp add: q_def)
qed

text \<open>
  Claim C9. For every list, every page number and every positive page size,
  \<open>paginate_query\<close> returns a result whose \<open>total\<close> is the length of the list, whose
  \<open>pages\<close> is the ceiling of total over the page size, whose \<open>page\<close> is the requested
  page clamped into \<open>1..pages\<close> (and 1 for the empty list), whose \<open>items\<close> are the slice
  starting at \<open>(page - 1) * per_page\<close> of at most \<open>per_page\<close> elements, with \<open>has_prev\<close>
  exactly when \<open>page > 1\<close> and \<open>has_next\<close> exactly when \<open>page < pages\<close>; and the items of
  the pages \<open>1..pages\<close>, concatenated, are the list.
\<close>

theorem paginate_query_correct:
  assumes "0 < n"
  shows "\<exists>r. paginate_query xs p n = Inr r
     \<and> total r = int (length xs)
     \<and> pages r = \<lceil>real (length xs) / real_of_int n\<rceil>
     \<and> page r = (if xs = [] then 1 else max 1 (min p (pages r)))
     \<and> 1 \<le> page r \<and> (xs \<noteq> [] \<longrightarrow> page r \<le> pages r)
     \<and> items r = take (nat n) (drop (nat ((page r - 1) * n)) xs)
     \<and> int (length (items r)) \<le> n
     \<and> has_prev r = (1 < page r)
     \<and> has_next r = (page r < pages r)
     \<and> concat (map (\<lambda>k. page_items xs k n) [1..pages r]) = xs"
proof (cases "xs = []")
  case True
  show ?thesis
    using assms by (simp add: True paginate_query_empty)
next
  case False
  define q where "q = (int (length xs) + n - 1) div n"
  define c where "c = max 1 (min p q)"
  have q1: "1 \<le> q" using pages_bounds(2)[OF assms False] by (simp add: q_def)
  have c1: "1 \<le> c" "c \<le> q" using q1 by (simp_all add: c_def)
  have qc: "q = \<lceil>real (length xs) / real_of_int n\<rceil>"
    using ceiling_div_int[OF assms, of "int (length xs)"] by (simp add: q_def)
  have cc: "concat (map (\<lambda>k. page_items xs k n) [1..q]) = xs"
    using concat_pages[OF assms, of xs] by (simp add: q_def)
  have ln: "int (length (take (nat n) (drop (nat ((c - 1) * n)) xs))) \<le> n"
    using assms by simp
  let ?r = "\<lparr>items = take (nat n) (drop (nat ((c - 1) * n)) xs),
         total = int (length xs), page = c, per_page = n, pages = q,
         has_prev = (c > 1), has_next = (c < q),
         prev_num = (if c > 1 then Some (c - 1) else None),
         next_num = (if c < q then Some (c + 1) else None)\<rparr>"
  have eq: "paginate_query xs p n = Inr ?r"
    using assms False q_def c_def by (rule paginate_query_page)
  have "total ?r = int (length xs)" by simp
  moreover have "pages ?r = \<lceil>real (length xs) / real_of_int n\<rceil>" using qc by simp
  moreover have "page ?r = (if xs = [] then 1 else max 1 (min p (pages ?r)))"
    using False by (simp add: c_def)
  moreover have "1 \<le> page ?r \<and> (xs \<noteq> [] \<longrightarrow> page ?r \<le> pages ?r)" using c1 by simp
  moreover have "items ?r = take (nat n) (drop (nat ((page ?r - 1) * n)) xs)" by simp
  moreover have "int (length (items ?r)) \<le> n" using ln by simp
  moreover have "has_prev ?r = (1 < page ?r)" by simp
  moreover have "has_next ?r = (page ?r < pages ?r)" by simp
  moreover have "concat (map (\<lambda>k. page_items xs k n) [1..pages ?r]) = xs" using cc by simp
  ultimately show ?thesis using eq by blast
qed

theorem paginate_query_correct_witness:
  "(0::int) < 2 \<and>
   (\<exists>r. paginate_query [10, 20, 30, 40, 50 :: nat] 7 2 = Inr r
      \<and> total r = 5 \<and> pages r = 3 \<and> page r = 3 \<and> items r = [50]
      \<and> has_prev r \<and> \<not> has_next r
      \<and> concat (map (\<lambda>k. page_items [10, 20, 30, 40, 50 :: nat] k 2) [1..pages r])
          = [10, 20, 30, 40, 50])"
proof -
  have h: "(0::int) < 2" by simp
  have c: "\<lceil>5 / 2 :: real\<rceil> = 3" by (simp add: ceiling_eq_iff)
  from paginate_query_correct[OF h, of "[10, 20, 30, 40, 50 :: nat]" 7]
  obtain r where r: "paginate_query [10, 20, 30, 40, 50 :: nat] 7 2 = Inr r"
    and t: "total r = 5" and ps: "pages r = 3"
    and p: "page r = max 1 (min 7 (pages r))"
    and i: "items r = take (nat 2) (drop (nat ((page r - 1) * 2)) [10, 20, 30, 40, 50])"
    and hp: "has_prev r = (1 < page r)" and hn: "has_next r = (page r < pages r)"
    and cc: "concat (map (\<lambda>k. page_items [10, 20, 30, 40, 50 :: nat] k 2) [1..pages r])
          = [10, 20, 30, 40, 50]"
    using c by auto
  have p3: "page r = 3" using p ps by simp
  have "items r = [50]" using i p3 by simp
  then show ?thesis using h r t ps p3 hp hn cc by auto
qed

section \<open>Customer types\<close>

lemma CUSTOMER_TYPES_keys: "map fst CUSTOMER_TYPES = [''end'', ''retail'', ''wholesale'']"
  by (simp add: CUSTOMER_TYPES_def)

lemma get_customer_type_info_other:
  assumes "customer_type \<notin> {''end'', ''retail'', ''wholesale''}"
  shows "get_customer_type_info customer_type =
           \<lparr>discount_rate = 0, min_order_qty = 1, description = ''Unknown''\<rparr>"
proof -
  have "customer_type \<notin> set (map fst CUSTOMER_TYPES)"
    using assms by (simp only: CUSTOMER_TYPES_keys) simp
  then have "map_of CUSTOMER_TYPES customer_type = None"
    by (simp add: map_of_eq_None_iff)
  then show ?thesis by (simp add: get_customer_type_info_def)
qed

text \<open>
  Claim C7. Each of the customer types 'end', 'retail' and 'wholesale' has an entry in
  \<open>BusinessRules.CUSTOMER_TYPES\<close> with a discount rate and a minimum order quantity
  (0.00 and 1, 5.00 and 10, 15.00 and 50), and \<open>get_customer_type_info\<close> returns that
  entry for each of them; for every other string it returns the default entry with
  discount rate 0.00, minimum order quantity 1 and description 'Unknown'.
\<close>

theorem customer_type_info_table:
  "(\<exists>e. map_of CUSTOMER_TYPES ''end'' = Some e \<and> discount_rate e = 0 \<and> min_order_qty e = 1
        \<and> get_customer_type_info ''end'' = e)
   \<and> (\<exists>e. map_of CUSTOMER_TYPES ''retail'' = Some e \<and> discount_rate e = 5 \<and> min_order_qty e = 10
        \<and> get_customer_type_info ''retail'' = e)
   \<and> (\<exists>e. map_of CUSTOMER_TYPES ''wholesale'' = Some e \<and> discount_rate e = 15
        \<and> min_order_qty e = 50 \<and> get_customer_type_info ''wholesale'' = e)
   \<and> (\<forall>customer_type. customer_type \<notin> {''end'', ''retail'', ''wholesale''} \<longrightarrow>
         get_customer_type_info customer_type =
           \<lparr>discount_rate = 0, min_order_qty = 1, description = ''Unknown''\<rparr>)"
proof (intro conjI allI impI)
  show "\<exists>e. map_of CUSTOMER_TYPES ''end'' = Some e \<and> discount_rate e = 0 \<and> min_order_qty e = 1
        \<and> get_customer_type_info ''end'' = e"
    by (simp add: CUSTOMER_TYPES_def get_customer_type_info_def)
  show "\<exists>e. map_of CUSTOMER_TYPES ''retail'' = Some e \<and> discount_rate e = 5 \<and> min_order_qty e = 10
        \<and> get_customer_type_info ''retail'' = e"
    by (simp add: CUSTOMER_TYPES_def get_customer_type_info_def)
  show "\<exists>e. map_of CUSTOMER_TYPES ''wholesale'' = Some e \<and> discount_rate e = 15
        \<and> min_order_qty e = 50 \<and> get_customer_type_info ''wholesale'' = e"
    by (simp add: CUSTOMER_TYPES_def get_customer_type_info_def)
next
  fix customer_type :: string
  assume "customer_type \<notin> {''end'', ''retail'', ''wholesale''}"
  then show "get_customer_type_info customer_type =
           \<lparr>discount_rate = 0, min_order_qty = 1, description = ''Unknown''\<rparr>"
    by (rule get_customer_type_info_other)
qed

theorem customer_type_info_table_witness:
  "get_customer_type_info ''vip'' = \<lparr>discount_rate = 0, min_order_qty = 1, description = ''Unknown''\<rparr>
   \<and> min_order_qty (get_customer_type_info ''wholesale'') = 50"
proof -
  have h: "''vip'' \<notin> {''end'', ''retail'', ''wholesale''}" by simp
  note t = customer_type_info_table
  have a: "get_customer_type_info ''vip'' =
      \<lparr>discount_rate = 0, min_order_qty = 1, description = ''Unknown''\<rparr>"
    using t[THEN conjunct2, THEN conjunct2, THEN conjunct2, rule_format, OF h] .
  obtain e where "min_order_qty e = 50" "get_customer_type_info ''wholesale'' = e"
    using t[THEN conjunct2, THEN conjunct2, THEN conjunct1] by (elim exE conjE)
  then have b: "min_order_qty (get_customer_type_info ''wholesale'') = 50" by simp
  show ?thesis using a b by (rule conjI)
qed

section \<open>Rate limiting: the sliding window of \_is\_rate\_limited\<close>

lemma is_rate_limited_result:
  assumes "is_rate_limited k m p now g = (b, g1)"
  shows "b = (m \<le> int (length (filter (\<lambda>t. now - real_of_int p < t) (recorded g k))))"
    and "recorded g1 k = filter (\<lambda>t. now - real_of_int p < t) (recorded g k) @ (if b then [] else [now])"
    and "k' \<noteq> k \<Longrightarrow> recorded g1 k' = recorded g k'"
    and "cache_store g1 = cache_store g"
  using assms
  by (auto simp: is_rate_limited_def recorded_def Let_def split: option.splits if_splits)

lemma filter_above_filter:
  fixes c d :: real
  assumes "d \<le> c"
  shows "filter (\<lambda>t. c < t) (filter (\<lambda>t. d < t) xs) = filter (\<lambda>t. c < t) xs"
  using assms by (induction xs) auto

text \<open>
  The invariant of a run: above the pruning threshold the store holds at least the
  timestamps admitted so far, so a window whose members are all within \<open>per_seconds\<close>
  of its latest member cannot take more than the limit.
\<close>

lemma window_invariant:
  fixes p m :: int and W :: "real \<Rightarrow> bool"
  assumes "sorted (map call_now cs)"
    and "\<forall>c\<in>set cs. call_key c = k \<longrightarrow> call_max c = m \<and> call_per c = p"
    and "\<forall>c\<in>set cs. T \<le> call_now c"
    and "\<forall>t\<in>set A. t \<le> T"
    and "\<forall>c. T - real_of_int p \<le> c \<longrightarrow>
           length (filter (\<lambda>t. c < t) A) \<le> length (filter (\<lambda>t. c < t) (recorded g k))"
    and "\<forall>s t. W s \<longrightarrow> W t \<longrightarrow> s \<le> t \<longrightarrow> t - real_of_int p < s"
    and "int (length (filter W A)) \<le> max 0 m"
  shows "int (length (filter W (A @ admitted k cs (fst (rate_limit_calls g cs))))) \<le> max 0 m"
  using assms
proof (induction cs arbitrary: g A T)
  case Nil
  then show ?case by simp
next
  case (Cons c cs)
  obtain b g1 where step: "is_rate_limited (call_key c) (call_max c) (call_per c) (call_now c) g = (b, g1)"
    by (cases "is_rate_limited (call_key c) (call_max c) (call_per c) (call_now c) g")
  obtain bs g2 where rest: "rate_limit_calls g1 cs = (bs, g2)"
    by (cases "rate_limit_calls g1 cs")
  have run: "fst (rate_limit_calls g (c # cs)) = b # bs" "bs = fst (rate_limit_calls g1 cs)"
    using step rest by simp_all
  define now where "now = call_now c"
  have sorted': "sorted (map call_now cs)" and later: "\<forall>c'\<in>set cs. now \<le> call_now c'"
    using Cons.prems(1) by (simp_all add: now_def)
  have params: "\<forall>c'\<in>set cs. call_key c' = k \<longrightarrow> call_max c' = m \<and> call_per c' = p"
    using Cons.prems(2) by simp
  have Tnow: "T \<le> now" using Cons.prems(3) by (simp add: now_def)
  show ?case
  proof (cases "call_key c = k")
    case False
    have same: "recorded g1 k = recorded g k"
      using is_rate_limited_result(3)[OF step, of k] False by simp
    have "int (length (filter W (A @ admitted k cs (fst (rate_limit_calls g1 cs))))) \<le> max 0 m"
      using sorted' params _ Cons.prems(4) _ Cons.prems(6,7)
    proof (rule Cons.IH)
      show "\<forall>c'\<in>set cs. T \<le> call_now c'" using Cons.prems(3) by simp
      show "\<forall>c. T - real_of_int p \<le> c \<longrightarrow>
              length (filter (\<lambda>t. c < t) A) \<le> length (filter (\<lambda>t. c < t) (recorded g1 k))"
        using Cons.prems(5) by (simp add: same)
    qed
    then show ?thesis using False run by simp
  next
    case True
    then have mp: "call_max c = m" "call_per c = p" using Cons.prems(2) by simp_all
    define kept where "kept = filter (\<lambda>t. now - real_of_int p < t) (recorded g k)"
    have b: "b = (m \<le> int (length kept))"
      using is_rate_limited_result(1)[OF step] by (simp add: True mp kept_def now_def)
    have rec1: "recorded g1 k = kept @ (if b then [] else [now])"
      using is_rate_limited_result(2)[OF step] by (simp add: True mp kept_def now_def)
    have agree: "length (filter (\<lambda>t. c' < t) A) \<le> length (filter (\<lambda>t. c' < t) kept)"
      if "now - real_of_int p \<le> c'" for c'
    proof -
      have "T - real_of_int p \<le> c'" using that Tnow by simp
      then have "length (filter (\<lambda>t. c' < t) A) \<le> length (filter (\<lambda>t. c' < t) (recorded g k))"
        using Cons.prems(5) by simp
      also have "filter (\<lambda>t. c' < t) (recorded g k) = filter (\<lambda>t. c' < t) kept"
        unfolding kept_def using that by (simp only: filter_above_filter)
      finally show ?thesis .
    qed
    have Anow: "\<forall>t\<in>set A. t \<le> now" using Cons.prems(4) Tnow by auto
    show ?thesis
    proof (cases b)
      case True
      have "int (length (filter W (A @ admitted k cs (fst (rate_limit_calls g1 cs))))) \<le> max 0 m"
        using sorted' params later Anow _ Cons.prems(6,7)
      proof (rule Cons.IH)
        show "\<forall>c'. now - real_of_int p \<le> c' \<longrightarrow>
                length (filter (\<lambda>t. c' < t) A) \<le> length (filter (\<lambda>t. c' < t) (recorded g1 k))"
          using agree rec1 True by simp
      qed
      then show ?thesis using True run by simp
    next
      case False
      then have room: "int (length kept) < m" using b by simp
      have bound: "int (length (filter W (A @ [now]))) \<le> max 0 m"
      proof (cases "W now")
        case False
        then show ?thesis using Cons.prems(7) by simp
      next
        case True
        have inw: "\<forall>t\<in>set A. W t \<longrightarrow> now - real_of_int p < t"
          using Cons.prems(6) True Anow by blast
        have "filter W A = filter (\<lambda>t. now - real_of_int p < t \<and> W t) A"
          by (rule filter_cong[OF refl]) (use inw in blast)
        also have "\<dots> = filter W (filter (\<lambda>t. now - real_of_int p < t) A)"
          by (simp only: filter_filter)
        finally have "length (filter W A) = length (filter W (filter (\<lambda>t. now - real_of_int p < t) A))"
          by simp
        also have "\<dots> \<le> length (filter (\<lambda>t. now - real_of_int p < t) A)"
          by (rule length_filter_le)
        also have "\<dots> \<le> length (filter (\<lambda>t. now - real_of_int p < t) kept)"
          by (rule agree) simp
        also have "\<dots> \<le> length kept"
          by (rule length_filter_le)
        finally have "length (filter W A) \<le> length kept" .
        then show ?thesis using room True by simp
      qed
      have "int (length (filter W ((A @ [now]) @ admitted k cs (fst (rate_limit_calls g1 cs))))) \<le> max 0 m"
        using sorted' params later _ _ Cons.prems(6) bound
      proof (rule Cons.IH)
        show "\<forall>t\<in>set (A @ [now]). t \<le> now" using Anow by simp
        show "\<forall>c'. now - real_of_int p \<le> c' \<longrightarrow>
                length (filter (\<lambda>t. c' < t) (A @ [now]))
                  \<le> length (filter (\<lambda>t. c' < t) (recorded g1 k))"
          using agree rec1 False by simp
      qed
      then show ?thesis using False run \<open>call_key c = k\<close> by (simp add: now_def)
    qed
  qed
qed

lemma window_bound:
  fixes p m :: int and W :: "real \<Rightarrow> bool"
  assumes "sorted (map call_now cs)"
    and "\<forall>c\<in>set cs. call_key c = k \<longrightarrow> call_max c = m \<and> call_per c = p"
    and "\<forall>s t. W s \<longrightarrow> W t \<longrightarrow> s \<le> t \<longrightarrow> t - real_of_int p < s"
  shows "int (length (filter W (admitted k cs (fst (rate_limit_calls g cs))))) \<le> max 0 m"
proof -
  define T where "T = (if cs = [] then 0 else call_now (hd cs))"
  have T: "\<forall>c\<in>set cs. T \<le> call_now c"
    using assms(1) by (cases cs) (auto simp: T_def)
  have "int (length (filter W ([] @ admitted k cs (fst (rate_limit_calls g cs))))) \<le> max 0 m"
    using assms(1,2) T _ _ assms(3)
    by (rule window_invariant) simp_all
  then show ?thesis by simp
qed

lemma demo_run:
  "fst (rate_limit_calls (fresh_g :: unit app_globals) demo_calls) = [False, True, False, False]"
  "fst (rate_limit_calls (fresh_g :: unit app_globals) backward_calls) = [False, False, False, False]"
  "fst (rate_limit_calls (fresh_g :: unit app_globals) negative_calls) = [True, True]"
  by (simp_all add: demo_calls_def backward_calls_def negative_calls_def fresh_g_def
      is_rate_limited_def Let_def)

lemma demo_admitted:
  "admitted ''u'' demo_calls (fst (rate_limit_calls (fresh_g :: unit app_globals) demo_calls)) = [0, 60]"
  "admitted ''u'' backward_calls (fst (rate_limit_calls (fresh_g :: unit app_globals) backward_calls))
     = [0, 1, 15, 2]"
  "admitted ''u'' negative_calls (fst (rate_limit_calls (fresh_g :: unit app_globals) negative_calls))
     = []"
  by (simp_all add: demo_run) (simp_all add: demo_calls_def backward_calls_def negative_calls_def)

text \<open>
  Claim C4, as stated, fails in three places. With a limit of one call per 60 seconds the
  calls at 0 and at 60 both return False, and both lie in the closed window from 0 to 60.
  With a limit of two calls per 10 seconds and a clock that reads 0, 1, 15 and then 2, all
  four calls return False, and three of them lie in the window from 0 to 10. With a limit
  of -1 no call returns False, and none is more than -1.
\<close>

theorem is_rate_limited_window_counterexample:
  "\<not> int (length (filter (\<lambda>t. 0 \<le> t \<and> t \<le> 0 + real_of_int 60)
         (admitted ''u'' demo_calls (fst (rate_limit_calls (fresh_g :: unit app_globals) demo_calls)))))
       \<le> 1
   \<and> \<not> int (length (filter (\<lambda>t. 0 \<le> t \<and> t < 0 + real_of_int 10)
         (admitted ''u'' backward_calls
            (fst (rate_limit_calls (fresh_g :: unit app_globals) backward_calls)))))
       \<le> 2
   \<and> \<not> int (length (filter (\<lambda>t. 0 \<le> t \<and> t < 0 + real_of_int 60)
         (admitted ''u'' negative_calls
            (fst (rate_limit_calls (fresh_g :: unit app_globals) negative_calls)))))
       \<le> - 1"
  by (simp add: demo_admitted)

text \<open>
  Claim C4, amended. For a fixed key, \<open>max_requests\<close> and \<open>per_seconds\<close>, and any store, a
  call of \<open>_is_rate_limited\<close> returns False exactly when fewer than \<open>max_requests\<close> of the
  timestamps recorded for the key are later than \<open>now - per_seconds\<close>; it then appends
  its own timestamp, and a call that returns True appends nothing (both prune the older
  timestamps). Consequently, for every sequence of calls on one store whose clock readings
  do not decrease, every window of length \<open>per_seconds\<close> that is open at one end,
  \<open>(a, a + per_seconds]\<close> or \<open>[a, a + per_seconds)\<close>, holds at most \<open>max_requests\<close>
  calls for the key that returned False, and none when \<open>max_requests\<close> is negative.
\<close>

theorem is_rate_limited_window:
  fixes m p :: int and g :: "'v app_globals"
  assumes "sorted (map call_now cs)"
    and "\<forall>c\<in>set cs. call_key c = key \<longrightarrow> call_max c = m \<and> call_per c = p"
  shows "(\<forall>(g'::'v app_globals) now b g1. is_rate_limited key m p now g' = (b, g1) \<longrightarrow>
            (\<not> b) = (int (length (filter (\<lambda>t. now - real_of_int p < t) (recorded g' key))) < m)
          \<and> recorded g1 key =
              filter (\<lambda>t. now - real_of_int p < t) (recorded g' key) @ (if b then [] else [now]))
       \<and> (\<forall>a. int (length (filter (\<lambda>t. a < t \<and> t \<le> a + real_of_int p)
                   (admitted key cs (fst (rate_limit_calls g cs))))) \<le> max 0 m)
       \<and> (\<forall>a. int (length (filter (\<lambda>t. a \<le> t \<and> t < a + real_of_int p)
                   (admitted key cs (fst (rate_limit_calls g cs))))) \<le> max 0 m)"
proof (intro conjI allI impI)
  fix g' :: "'v app_globals" and now b g1
  assume step: "is_rate_limited key m p now g' = (b, g1)"
  show "(\<not> b) = (int (length (filter (\<lambda>t. now - real_of_int p < t) (recorded g' key))) < m)"
    using is_rate_limited_result(1)[OF step] by auto
  show "recorded g1 key =
          filter (\<lambda>t. now - real_of_int p < t) (recorded g' key) @ (if b then [] else [now])"
    using is_rate_limited_result(2)[OF step] .
next
  fix a :: real
  show "int (length (filter (\<lambda>t. a < t \<and> t \<le> a + real_of_int p)
          (admitted key cs (fst (rate_limit_calls g cs))))) \<le> max 0 m"
    using assms by (rule window_bound) auto
next
  fix a :: real
  show "int (length (filter (\<lambda>t. a \<le> t \<and> t < a + real_of_int p)
          (admitted key cs (fst (rate_limit_calls g cs))))) \<le> max 0 m"
    using assms by (rule window_bound) auto
qed

theorem is_rate_limited_window_witness:
  "sorted (map call_now demo_calls)
   \<and> admitted ''u'' demo_calls (fst (rate_limit_calls (fresh_g :: unit app_globals) demo_calls)) = [0, 60]
   \<and> (\<forall>a. int (length (filter (\<lambda>t. a < t \<and> t \<le> a + real_of_int 60)
                   (admitted ''u'' demo_calls (fst (rate_limit_calls (fresh_g :: unit app_globals) demo_calls))))) \<le> 1)"
proof -
  have h1: "sorted (map call_now demo_calls)" by (simp add: demo_calls_def)
  have h2: "\<forall>c\<in>set demo_calls. call_key c = ''u'' \<longrightarrow> call_max c = 1 \<and> call_per c = 60"
    by (simp add: demo_calls_def)
  have "\<forall>a. int (length (filter (\<lambda>t. a < t \<and> t \<le> a + real_of_int 60)
                   (admitted ''u'' demo_calls (fst (rate_limit_calls (fresh_g :: unit app_globals) demo_calls))))) \<le> max 0 1"
    using is_rate_limited_window[OF h1 h2, of fresh_g] by blast
  then show ?thesis
    using h1 demo_admitted(1) by simp
qed

section \<open>The response cache: \_get\_from\_cache after \_set\_cache\<close>







section \<open>Steps of a handler\<close>


lemma io_bind_of_Inl: "io_bind (io_of (Inl e)) f w = (Inl e, w)"
  by (simp add: io_bind_def io_of_def)


lemma io_bind_apply_Inr: "m w = (Inr x, w1) \<Longrightarrow> io_bind m f w = f x w1"
  by (simp add: io_bind_def)

lemma io_bind_apply_Inl: "m w = (Inl e, w1) \<Longrightarrow> io_bind m f w = (Inl e, w1)"
  by (simp add: io_bind_def)

lemma try_except_Inr: "m w = (Inr x, w1) \<Longrightarrow> try_except m h w = (x, w1)"
  by (simp add: try_except_def)

lemma try_except_Inl: "m w = (Inl e, w1) \<Longrightarrow> try_except m h w = h w1"
  by (simp add: try_except_def)

lemma respond_apply: "respond effect r w = (Inr r, effect w)"
  by (simp add: respond_def)


lemma flash_fields:
  "procs (flash msg category w) = procs w"
  "db (flash msg category w) = db w"
  "flashes (flash msg category w) = flashes w @ [(msg, category)]"
  by (simp_all add: flash_def)

lemma call_procedure_fields:
  assumes "call_procedure D proc_name args w = (r, w1)"
  shows "procs w1 = procs w @ [(proc_name, args)]" and "flashes w1 = flashes w"
  using assms by (auto simp: call_procedure_def split: prod.splits)

text \<open>
  \<open>int\<close> on text: the separators 0x1C to 0x1F are not skipped, and a literal of more
  than 4300 digits is refused.
\<close>

lemma py_int_examples:
  "py_int '' 42 '' = Some 42" "py_int ''-7'' = Some (- 7)" "py_int ''1_000'' = Some 1000"
  "py_int [CHR 0x1C, CHR ''5''] = None" "py_int [CHR ''5'', CHR 0x1F] = None"
  "py_int [CHR 0x0B, CHR ''5'', CHR 0x0D] = Some 5"
  "py_int [] = None" "py_int ''1__0'' = None" "py_int ''5_'' = None"
  by code_simp+

lemma py_int_digit_limit:
  assumes "length (filter is_digit (int_strip s)) > max_str_digits"
  shows "py_int s = None"
proof (cases "int_strip s")
  case Nil
  then show ?thesis by (simp add: py_int_def)
next
  case (Cons c cs)
  then have "length (filter is_digit (c # cs)) > max_str_digits" using assms by simp
  then show ?thesis by (simp only: py_int_def Cons list.case if_True)
qed


text \<open>A refusal: one error message, a redirect, and nothing else.\<close>

lemma referrer_or_redirect: "\<exists>t. referrer_or referrer e = Redirect t"
  by (simp add: referrer_or_def split: option.splits)

lemma refusal:
  assumes "x = (referrer_or referrer e, flash_error msg w)" "x = (r, w')"
  shows "procs w' = procs w \<and> db w' = db w
       \<and> (\<exists>msg. flashes w' = flashes w @ [(msg, ''error'')])
       \<and> (\<exists>t. r = Redirect t)"
  using assms referrer_or_redirect[of referrer e]
  by (auto simp: flash_error_def flash_fields)

section \<open>role\_required: who reaches the wrapped function\<close>

text \<open>
  Claim C3. A route wrapped by \<open>role_required(allowed_roles)\<close> runs the wrapped function
  exactly when the session contains 'user_name' and \<open>session.get('user_role')\<close> is one of
  the allowed roles. In every other case the result does not depend on the wrapped
  function: it is a redirect to the login page when 'user_name' is absent, and to the index
  page otherwise, with a message flashed.
\<close>
theorem role_required_gate:
  fixes f :: "'s world \<Rightarrow> response \<times> 's world"
  shows "(s ''user_name'' \<noteq> None \<and> session_get s ''user_role'' \<in> set allowed_roles
            \<longrightarrow> role_required allowed_roles f s w = f w)
       \<and> (s ''user_name'' = None
            \<longrightarrow> (\<forall>g :: 's world \<Rightarrow> response \<times> 's world. role_required allowed_roles g s w =
                  (Redirect (Endpoint ''auth.login'' []),
                   flash [Txt ''Please log in to access this page.''] ''warning'' w)))
       \<and> (s ''user_name'' \<noteq> None \<and> session_get s ''user_role'' \<notin> set allowed_roles
            \<longrightarrow> (\<forall>g :: 's world \<Rightarrow> response \<times> 's world. role_required allowed_roles g s w =
                  (Redirect (Endpoint ''index'' []),
                   flash [Txt ''You do not have permission to access this page.''] ''error'' w)))"
  by (simp add: role_required_def Let_def)

theorem role_required_gate_witness:
  "role_required [PyStr ''store_manager'', PyStr ''main_manager''] (\<lambda>w. (Render ''page'', w))
      manager_session demo_world = (Render ''page'', demo_world)
   \<and> role_required [PyStr ''store_manager'', PyStr ''main_manager''] (\<lambda>w. (Render ''page'', w))
      customer_session demo_world =
        (Redirect (Endpoint ''index'' []),
         flash [Txt ''You do not have permission to access this page.''] ''error'' demo_world)
   \<and> role_required [PyStr ''customer''] (\<lambda>w. (Render ''page'', w)) Map.empty demo_world =
        (Redirect (Endpoint ''auth.login'' []),
         flash [Txt ''Please log in to access this page.''] ''warning'' demo_world)"
proof -
  have m: "manager_session ''user_name'' \<noteq> None
     \<and> session_get manager_session ''user_role'' \<in> set [PyStr ''store_manager'', PyStr ''main_manager'']"
    by (simp add: manager_session_def session_get_def)
  have c: "customer_session ''user_name'' \<noteq> None
     \<and> session_get customer_session ''user_role'' \<notin> set [PyStr ''store_manager'', PyStr ''main_manager'']"
    by (simp add: customer_session_def session_get_def)
  have e: "(Map.empty :: session) ''user_name'' = None" by simp
  note g1 = role_required_gate[of manager_session "[PyStr ''store_manager'', PyStr ''main_manager'']"
      "\<lambda>w. (Render ''page'', w)" demo_world, THEN conjunct1, rule_format, OF m]
  note g2 = role_required_gate[of customer_session "[PyStr ''store_manager'', PyStr ''main_manager'']"
      "\<lambda>w. (Render ''page'', w)" demo_world, THEN conjunct2, THEN conjunct2, rule_format, OF c]
  note g3 = role_required_gate[of Map.empty "[PyStr ''customer'']"
      "\<lambda>w. (Render ''page'', w)" demo_world, THEN conjunct2, THEN conjunct1, rule_format, OF e]
  show ?thesis using g1 g2 g3 by simp
qed

section \<open>add\_to\_cart: the guard before sp\_add\_to\_cart\<close>

text \<open>Stock that is not less than the quantity asked for.\<close>

lemma py_less_quantity_False:
  "py_less available (PyInt quantity) = Inr False \<longleftrightarrow>
     (\<exists>a. available = PyInt a \<and> quantity \<le> a) \<or> (\<exists>d. available = PyDec d \<and> of_int quantity \<le> d)"
  by (cases available) auto






section \<open>cancel\_order: terminal orders are left alone\<close>

lemma permitted_order_world: "snd (permitted_order D s order_id w) = w"
  by (simp add: permitted_order_def io_bind_def io_of_def execute_query_one_def
      split: sum.splits)

lemma cancel_order_refused:
  fixes D :: "'s database"
  assumes run: "cancel_order D s referrer order_id w = (r, w')"
    and no: "\<not> (\<exists>order status user_name.
          fst (permitted_order D s order_id w) = Inr (Some order)
        \<and> map_of order ''status'' = Some status
        \<and> status \<notin> {PyStr ''delivered'', PyStr ''cancelled'', PyStr ''returned''}
        \<and> subscript (get_current_user s) ''user_name'' = Inr user_name)"
  shows "procs w' = procs w \<and> db w' = db w
       \<and> (\<exists>msg. flashes w' = flashes w @ [(msg, ''error'')])
       \<and> (\<exists>t. r = Redirect t)"
proof -
  note defs = cancel_order_def cancel_order_body_def try_except_def io_bind_def io_of_def
    io_return_def respond_def falsy_row_def Let_def
  obtain fetched where po: "permitted_order D s order_id w = (fetched, w)"
    using permitted_order_world[of D s order_id w]
    by (cases "permitted_order D s order_id w") simp
  have "\<exists>e msg. cancel_order D s referrer order_id w = (referrer_or referrer e, flash_error msg w)"
  proof (cases fetched)
    case (Inl e)
    then show ?thesis using po by (auto simp: defs)
  next
    case (Inr order)
    show ?thesis
    proof (cases "falsy_row order")
      case True
      then show ?thesis using po Inr by (auto simp: defs split: option.splits)
    next
      case False
      then obtain orow where orow: "order = Some orow" "orow \<noteq> []"
        by (auto simp: falsy_row_def split: option.splits)
      show ?thesis
      proof (cases "map_of orow ''status''")
        case None
        then have "subscript (Some orow) ''status'' = Inl KeyError"
          by (simp add: subscript_def)
        then show ?thesis using po Inr orow by (auto simp: defs)
      next
        case (Some status)
        then have st: "subscript (Some orow) ''status'' = Inr status"
          by (simp add: subscript_def)
        show ?thesis
        proof (cases "status \<in> {PyStr ''delivered'', PyStr ''cancelled'', PyStr ''returned''}")
          case True
          then show ?thesis using po Inr orow st by (auto simp: defs)
        next
          case False
          show ?thesis
          proof (cases "subscript (get_current_user s) ''user_name''")
            case (Inl e)
            then show ?thesis using po Inr orow st False by (auto simp: defs)
          next
            case un: (Inr user_name)
            have False using no po Inr orow Some \<open>status \<notin> _\<close> un by auto
            then show ?thesis ..
          qed
        qed
      qed
    qed
  qed
  then obtain e msg where
    "cancel_order D s referrer order_id w = (referrer_or referrer e, flash_error msg w)"
    by blast
  then show ?thesis using run by (rule refusal)
qed

lemma cancel_order_accepted:
  fixes D :: "'s database"
  assumes run: "cancel_order D s referrer order_id w = (r, w')"
    and c: "fst (permitted_order D s order_id w) = Inr (Some order)"
      "map_of order ''status'' = Some status"
      "status \<notin> {PyStr ''delivered'', PyStr ''cancelled'', PyStr ''returned''}"
      "subscript (get_current_user s) ''user_name'' = Inr user_name"
  shows "procs w' = procs w @ [(''sp_update_order_status'',
                                [PyInt order_id, PyStr ''cancelled'', user_name])]"
proof -
  have po: "permitted_order D s order_id w = (Inr (Some order), w)"
    using c(1) permitted_order_world[of D s order_id w]
    by (cases "permitted_order D s order_id w") simp
  have ne: "\<not> falsy_row (Some order)" using c(2) by (auto simp: falsy_row_def)
  have st: "subscript (Some order) ''status'' = Inr status"
    using c(2) by (simp add: subscript_def)
  obtain res w1 where cp: "call_procedure D ''sp_update_order_status''
                 [PyInt order_id, PyStr ''cancelled'', user_name] w = (res, w1)"
    by (cases "call_procedure D ''sp_update_order_status''
                 [PyInt order_id, PyStr ''cancelled'', user_name] w")
  have p1: "procs w1 = procs w @ [(''sp_update_order_status'',
                                [PyInt order_id, PyStr ''cancelled'', user_name])]"
    using cp by (rule call_procedure_fields(1))
  show ?thesis
    using run po ne st c(3,4) cp p1
    by (cases res)
      (auto simp: cancel_order_def cancel_order_body_def try_except_def io_bind_def io_of_def
        respond_def Let_def flash_error_def flash_success_def flash_fields)
qed

text \<open>
  Claim C8. For every POST to \<open>cancel_order\<close> on an order whose status is 'delivered',
  'cancelled' or 'returned', the handler calls no stored procedure, leaves the database as
  it is, flashes one error message and redirects. \<open>sp_update_order_status\<close> is called
  only when the order that the requesting user may see (a customer's own order, any order
  for the other roles) was fetched, has a status outside these three, and the session has a
  user; it is then called once, with 'cancelled'.
\<close>

theorem cancel_order_guard:
  fixes D :: "'s database"
  assumes "cancel_order D s referrer order_id w = (r, w')"
  shows "(\<forall>order status. fst (permitted_order D s order_id w) = Inr (Some order)
            \<and> map_of order ''status'' = Some status
            \<and> status \<in> {PyStr ''delivered'', PyStr ''cancelled'', PyStr ''returned''}
          \<longrightarrow> calls_of ''sp_update_order_status'' w' = calls_of ''sp_update_order_status'' w
              \<and> procs w' = procs w \<and> db w' = db w
              \<and> (\<exists>msg. flashes w' = flashes w @ [(msg, ''error'')])
              \<and> (\<exists>t. r = Redirect t))
       \<and> (if \<exists>order status user_name.
               fst (permitted_order D s order_id w) = Inr (Some order)
             \<and> map_of order ''status'' = Some status
             \<and> status \<notin> {PyStr ''delivered'', PyStr ''cancelled'', PyStr ''returned''}
             \<and> subscript (get_current_user s) ''user_name'' = Inr user_name
           then \<exists>user_name. procs w' = procs w @ [(''sp_update_order_status'',
                                [PyInt order_id, PyStr ''cancelled'', user_name])]
           else procs w' = procs w \<and> db w' = db w
              \<and> (\<exists>msg. flashes w' = flashes w @ [(msg, ''error'')])
              \<and> (\<exists>t. r = Redirect t))"
proof -
  have first: "\<forall>order status. fst (permitted_order D s order_id w) = Inr (Some order)
            \<and> map_of order ''status'' = Some status
            \<and> status \<in> {PyStr ''delivered'', PyStr ''cancelled'', PyStr ''returned''}
          \<longrightarrow> calls_of ''sp_update_order_status'' w' = calls_of ''sp_update_order_status'' w
              \<and> procs w' = procs w \<and> db w' = db w
              \<and> (\<exists>msg. flashes w' = flashes w @ [(msg, ''error'')])
              \<and> (\<exists>t. r = Redirect t)"
  proof (intro allI impI)
    fix order status
    assume a: "fst (permitted_order D s order_id w) = Inr (Some order)
              \<and> map_of order ''status'' = Some status
              \<and> status \<in> {PyStr ''delivered'', PyStr ''cancelled'', PyStr ''returned''}"
    have "\<not> (\<exists>order status user_name.
            fst (permitted_order D s order_id w) = Inr (Some order)
          \<and> map_of order ''status'' = Some status
          \<and> status \<notin> {PyStr ''delivered'', PyStr ''cancelled'', PyStr ''returned''}
          \<and> subscript (get_current_user s) ''user_name'' = Inr user_name)"
      using a by auto
    with assms have "procs w' = procs w \<and> db w' = db w
         \<and> (\<exists>msg. flashes w' = flashes w @ [(msg, ''error'')])
         \<and> (\<exists>t. r = Redirect t)"
      by (rule cancel_order_refused)
    then show "calls_of ''sp_update_order_status'' w' = calls_of ''sp_update_order_status'' w
                \<and> procs w' = procs w \<and> db w' = db w
                \<and> (\<exists>msg. flashes w' = flashes w @ [(msg, ''error'')])
                \<and> (\<exists>t. r = Redirect t)"
      by (simp add: calls_of_def)
  qed
  have second: "if \<exists>order status user_name.
               fst (permitted_order D s order_id w) = Inr (Some order)
             \<and> map_of order ''status'' = Some status
             \<and> status \<notin> {PyStr ''delivered'', PyStr ''cancelled'', PyStr ''returned''}
             \<and> subscript (get_current_user s) ''user_name'' = Inr user_name
           then \<exists>user_name. procs w' = procs w @ [(''sp_update_order_status'',
                                [PyInt order_id, PyStr ''cancelled'', user_name])]
           else procs w' = procs w \<and> db w' = db w
              \<and> (\<exists>msg. flashes w' = flashes w @ [(msg, ''error'')])
              \<and> (\<exists>t. r = Redirect t)"
  proof (cases "\<exists>order status user_name.
               fst (permitted_order D s order_id w) = Inr (Some order)
             \<and> map_of order ''status'' = Some status
             \<and> status \<notin> {PyStr ''delivered'', PyStr ''cancelled'', PyStr ''returned''}
             \<and> subscript (get_current_user s) ''user_name'' = Inr user_name")
    case True
    then obtain order status user_name where
      "fst (permitted_order D s order_id w) = Inr (Some order)"
      "map_of order ''status'' = Some status"
      "status \<notin> {PyStr ''delivered'', PyStr ''cancelled'', PyStr ''returned''}"
      "subscript (get_current_user s) ''user_name'' = Inr user_name"
      by blast
    with assms have "procs w' = procs w @ [(''sp_update_order_status'',
                                [PyInt order_id, PyStr ''cancelled'', user_name])]"
      by (rule cancel_order_accepted)
    then have "\<exists>user_name. procs w' = procs w @ [(''sp_update_order_status'',
                                [PyInt order_id, PyStr ''cancelled'', user_name])]" ..
    with True show ?thesis by (simp only: if_True)
  next
    case False
    with assms have "procs w' = procs w \<and> db w' = db w
       \<and> (\<exists>msg. flashes w' = flashes w @ [(msg, ''error'')])
       \<and> (\<exists>t. r = Redirect t)"
      by (rule cancel_order_refused)
    with False show ?thesis by (simp only: if_False)
  qed
  show ?thesis using first second by (rule conjI)
qed

theorem cancel_order_guard_witness:
  "(\<exists>r w'. cancel_order demo_db customer_session None 8 demo_world = (r, w')
      \<and> procs w' = [] \<and> r = Redirect (Endpoint ''customer.orders'' [])
      \<and> flashes w' = [([Txt ''Order cannot be cancelled''], ''error'')])
   \<and> (\<exists>r w'. cancel_order demo_db customer_session None 7 demo_world = (r, w')
      \<and> procs w' = [(''sp_update_order_status'', [PyInt 7, PyStr ''cancelled'', PyStr ''alice''])])"
proof -
  note ev = cancel_order_def cancel_order_body_def permitted_order_def is_customer_def
    try_except_def io_bind_def io_of_def
    io_return_def respond_def execute_query_one_def falsy_row_def subscript_def
    get_current_user_def session_get_def customer_session_def
    demo_db_def demo_fetch_one_def
    demo_callproc_def demo_world_def call_procedure_def
    flash_success_def flash_error_def flash_def referrer_or_def Let_def
  have run8: "cancel_order demo_db customer_session None 8 demo_world =
    (Redirect (Endpoint ''customer.orders'' []),
     \<lparr>db = 0, procs = [], flashes = [([Txt ''Order cannot be cancelled''], ''error'')]\<rparr>)"
    by (simp add: ev)
  have run7: "cancel_order demo_db customer_session None 7 demo_world =
    (Redirect (Endpoint ''customer.orders'' []),
     \<lparr>db = 1, procs = [(''sp_update_order_status'', [PyInt 7, PyStr ''cancelled'', PyStr ''alice''])],
      flashes = [([Txt ''Order #'', Val (PyInt 7), Txt '' has been cancelled''], ''success'')]\<rparr>)"
    by (simp add: ev)
  note g8 = cancel_order_guard[OF run8]
  note g7 = cancel_order_guard[OF run7]
  show ?thesis using g8 g7 by (simp add: run8 run7)
qed

section \<open>checkout: the guard before sp\_create\_order\_from\_cart\<close>


















text \<open>A route that \<open>int\<close> refuses: the handler creates no order.\<close>

lemma checkout_bad_route:
  "form_int bad_route_form ''route_id'' 0 = Inl ValueError"
  "calls_of ''sp_create_order_from_cart''
      (snd (checkout demo_db 739924 customer_session ''POST'' bad_route_form demo_world)) = []"
  "flashes (snd (checkout demo_db 739924 customer_session ''POST'' bad_route_form demo_world))
     = [([Txt ''Error processing order''], ''error'')]"
  by code_simp+


section \<open>Order status: the flow table is not consulted\<close>













section \<open>The model functions that delegate to the database\<close>

lemma calculate_shipping_cost_result:
  "calculate_shipping_cost D route_id weight volume w =
     (case callfunc D ''fn_calculate_shipping_cost'' [route_id, weight, volume] (db w) of
        Inl e \<Rightarrow> 10
      | Inr SqlNull \<Rightarrow> 10
      | Inr (SqlInt n) \<Rightarrow> if n = 0 then 10 else of_int n
      | Inr (SqlDecimal d) \<Rightarrow> if d = 0 then 10 else d)"
  by (simp add: calculate_shipping_cost_def call_function_def split: sum.splits sql_number.splits)

lemma Order_update_status_delegates:
  "fst (fst (Order_update_status D self new_status user_name w))
     = (\<exists>rows. fst (callproc D ''sp_update_order_status''
                      [attr self ''order_id'', PyStr new_status, user_name] (db w)) = Inr rows)"
  by (auto simp: Order_update_status_def call_procedure_def split: prod.splits sum.splits)

lemma Order_create_from_cart_delegates:
  "fst (Order_create_from_cart D customer_id route_id day special w) =
     (case callproc D ''sp_create_order_from_cart''
             [customer_id, PyInt route_id, PyDate day, PyStr special] (db w) of
        (Inl e, s') \<Rightarrow> Inr None
      | (Inr [], s') \<Rightarrow> Inr None
      | (Inr (first # rest), s') \<Rightarrow>
          (case map_of first ''order_id'' of
             None \<Rightarrow> Inr None
           | Some order_id \<Rightarrow>
               if truthy order_id
               then fst (Order_get_by_id D order_id
                      (w\<lparr>db := s', procs := procs w @ [(''sp_create_order_from_cart'',
                          [customer_id, PyInt route_id, PyDate day, PyStr special])]\<rparr>))
               else Inr None))"
  by (simp add: Order_create_from_cart_def call_procedure_def
      split: prod.splits sum.splits list.splits option.splits)

text \<open>
  Claim C2. \<open>Order.create_from_cart\<close>, \<open>Order.update_status\<close> and
  \<open>calculate_shipping_cost\<close> delegate to a database routine and return a value derived
  from its result; \<open>calculate_shipping_cost\<close> is to return the function's result as a
  Decimal, and 10.00 only when the result is absent or the call fails. The lemmas above
  give what each of the three returns. For the shipping cost the code tests the
  truthiness of the result, so a result of zero is replaced by 10.00 as well: the
  database below answers 0 and the function returns 10.
\<close>

theorem calculate_shipping_cost_zero:
  "callfunc demo_db ''fn_calculate_shipping_cost'' [PyInt 1, PyDec 2, PyDec 3] (db demo_world)
     = Inr (SqlDecimal 0)
   \<and> calculate_shipping_cost demo_db (PyInt 1) (PyDec 2) (PyDec 3) demo_world = 10"
  by (simp add: calculate_shipping_cost_result) (simp add: demo_db_def)

end
